theory Spec2Isabelle
  imports Complex_Main
begin

section \<open>JavaScript numbers\<close>

text \<open>
  The analytics handlers compute with JavaScript numbers. Finite values are modelled as
  reals (rounding error of the binary representation is not modelled); the three special
  values that division can produce are kept, because the handlers rely on how \<open>||\<close> and
  the comparisons treat them. Signed zero is not distinguished: the only zero divisor that
  occurs in the handlers is an array length. A \<open>reduce\<close> that adds up from 0 is written
  \<open>sum_list\<close>.
\<close>

datatype jsnum = Num real | PInf | NInf | NaN

text \<open>\<open>Math.round\<close> on a finite number: the nearest integer, halves rounded up.\<close>

definition js_round :: "real \<Rightarrow> int" where
  "js_round x = \<lfloor>x + 1 / 2\<rfloor>"

definition js_ceil :: "real \<Rightarrow> int" where
  "js_ceil x = \<lceil>x\<rceil>"

fun js_div :: "jsnum \<Rightarrow> jsnum \<Rightarrow> jsnum" where
  "js_div (Num x) (Num y) =
     (if y = 0 then (if x = 0 then NaN else if 0 < x then PInf else NInf)
      else Num (x / y))"
| "js_div NaN _ = NaN"
| "js_div _ NaN = NaN"
| "js_div (Num x) PInf = Num 0"
| "js_div (Num x) NInf = Num 0"
| "js_div PInf (Num y) = (if 0 \<le> y then PInf else NInf)"
| "js_div NInf (Num y) = (if 0 \<le> y then NInf else PInf)"
| "js_div _ _ = NaN"

fun js_mul :: "jsnum \<Rightarrow> jsnum \<Rightarrow> jsnum" where
  "js_mul (Num x) (Num y) = Num (x * y)"
| "js_mul NaN _ = NaN"
| "js_mul _ NaN = NaN"
| "js_mul (Num x) PInf = (if x = 0 then NaN else if 0 < x then PInf else NInf)"
| "js_mul (Num x) NInf = (if x = 0 then NaN else if 0 < x then NInf else PInf)"
| "js_mul PInf (Num y) = (if y = 0 then NaN else if 0 < y then PInf else NInf)"
| "js_mul NInf (Num y) = (if y = 0 then NaN else if 0 < y then NInf else PInf)"
| "js_mul PInf PInf = PInf"
| "js_mul NInf NInf = PInf"
| "js_mul _ _ = NInf"

text \<open>\<open>Math.round\<close> on any number: the special values are returned unchanged.\<close>

fun js_round_num :: "jsnum \<Rightarrow> jsnum" where
  "js_round_num (Num x) = Num (of_int (js_round x))"
| "js_round_num v = v"

text \<open>\<open>a >= b\<close> and \<open>a < b\<close>: every comparison with \<open>NaN\<close> is false.\<close>

fun js_ge :: "jsnum \<Rightarrow> jsnum \<Rightarrow> bool" where
  "js_ge NaN _ = False"
| "js_ge _ NaN = False"
| "js_ge (Num x) (Num y) = (y \<le> x)"
| "js_ge PInf _ = True"
| "js_ge _ NInf = True"
| "js_ge _ _ = False"

fun js_lt :: "jsnum \<Rightarrow> jsnum \<Rightarrow> bool" where
  "js_lt NaN _ = False"
| "js_lt _ NaN = False"
| "js_lt (Num x) (Num y) = (x < y)"
| "js_lt PInf _ = False"
| "js_lt _ NInf = False"
| "js_lt _ _ = True"

text \<open>\<open>a || b\<close> on numbers: \<open>0\<close> and \<open>NaN\<close> are falsy.\<close>

fun js_or :: "jsnum \<Rightarrow> jsnum \<Rightarrow> jsnum" where
  "js_or (Num x) d = (if x = 0 then d else Num x)"
| "js_or NaN d = d"
| "js_or v d = v"

text \<open>\<open>Number(x)\<close> and \<open>x || d\<close> on a nullable column: \<open>null\<close> converts to \<open>0\<close>.\<close>

definition Number_of :: "real option \<Rightarrow> real" where
  "Number_of v = (case v of None \<Rightarrow> 0 | Some x \<Rightarrow> x)"

definition or_default :: "real option \<Rightarrow> real \<Rightarrow> real" where
  "or_default v d = (case v of None \<Rightarrow> d | Some x \<Rightarrow> if x = 0 then d else x)"

text \<open>\<open>Math.round(x * 100) / 100\<close> and \<open>Math.round(x * 10) / 10\<close> at the response boundary.\<close>

definition round2 :: "real \<Rightarrow> real" where
  "round2 x = of_int (js_round (x * 100)) / 100"

definition round1 :: "real \<Rightarrow> real" where
  "round1 x = of_int (js_round (x * 10)) / 10"

definition round2_num :: "jsnum \<Rightarrow> jsnum" where
  "round2_num v = js_div (js_round_num (js_mul v (Num 100))) (Num 100)"

section \<open>Insertion-ordered maps\<close>

text \<open>
  A JavaScript \<open>Map\<close> keeps its keys in insertion order; \<open>set\<close> on an existing key
  replaces the value in place. \<open>get\<close> is \<open>map_of\<close>.
\<close>

fun map_set :: "('k \<times> 'v) list \<Rightarrow> 'k \<Rightarrow> 'v \<Rightarrow> ('k \<times> 'v) list" where
  "map_set [] k v = [(k, v)]"
| "map_set ((k', v') # m) k v =
     (if k' = k then (k, v) # m else (k', v') # map_set m k v)"

section \<open>Menu engineering (routes/menu.ts, GET /engineering)\<close>

record menuItem =
  mi_id :: string
  mi_name :: string
  mi_category :: string
  mi_price :: real
  mi_cost :: "real option"

text \<open>An order item row with the cost of the joined menu item (\<open>oi.menuItem?.cost\<close>).\<close>

record orderItem =
  oi_menuItemId :: string
  oi_quantity :: int
  oi_unitPrice :: "real option"
  oi_menuItem_cost :: "real option"

record metrics =
  m_quantity :: real
  m_revenue :: real
  m_cost :: real
  m_profit :: real

definition zero_metrics :: metrics where
  "zero_metrics = \<lparr>m_quantity = 0, m_revenue = 0, m_cost = 0, m_profit = 0\<rparr>"

definition get_metrics :: "(string \<times> metrics) list \<Rightarrow> string \<Rightarrow> metrics" where
  "get_metrics itemMetrics k =
     (case map_of itemMetrics k of None \<Rightarrow> zero_metrics | Some m \<Rightarrow> m)"

text \<open>The body of \<open>orderItems.forEach\<close>.\<close>

definition add_order_item ::
  "orderItem \<Rightarrow> (string \<times> metrics) list \<Rightarrow> (string \<times> metrics) list" where
  "add_order_item oi itemMetrics =
     (let existing = get_metrics itemMetrics (oi_menuItemId oi);
          revenue = Number_of (oi_unitPrice oi) * of_int (oi_quantity oi);
          cost = or_default (oi_menuItem_cost oi) 0 * of_int (oi_quantity oi)
      in map_set itemMetrics (oi_menuItemId oi)
           \<lparr>m_quantity = m_quantity existing + of_int (oi_quantity oi),
            m_revenue = m_revenue existing + revenue,
            m_cost = m_cost existing + cost,
            m_profit = m_profit existing + (revenue - cost)\<rparr>)"

definition build_itemMetrics :: "orderItem list \<Rightarrow> (string \<times> metrics) list" where
  "build_itemMetrics orderItems = fold add_order_item orderItems []"

text \<open>
  \<open>allMetrics.reduce((s, m) => s + m.quantity, 0) / allMetrics.length || 1\<close>: the
  division binds tighter than \<open>||\<close>.
\<close>

definition avgQuantity :: "metrics list \<Rightarrow> jsnum" where
  "avgQuantity allMetrics =
     js_or (js_div (Num (sum_list (map m_quantity allMetrics)))
                   (Num (real (length allMetrics)))) (Num 1)"

definition avgProfit :: "metrics list \<Rightarrow> jsnum" where
  "avgProfit allMetrics =
     js_or (js_div (Num (sum_list (map m_profit allMetrics)))
                   (Num (real (length allMetrics)))) (Num 1)"

definition popularity :: "jsnum \<Rightarrow> metrics \<Rightarrow> jsnum" where
  "popularity avgQ m = js_div (Num (m_quantity m)) avgQ"

definition profitability :: "jsnum \<Rightarrow> metrics \<Rightarrow> jsnum" where
  "profitability avgP m = js_div (Num (m_profit m)) avgP"

text \<open>The if/else chain, on the unrounded indices.\<close>

definition classify :: "jsnum \<Rightarrow> jsnum \<Rightarrow> string" where
  "classify pop prof =
     (if js_ge pop (Num 1) \<and> js_ge prof (Num 1) then ''Star''
      else if js_ge pop (Num 1) \<and> js_lt prof (Num 1) then ''Plowhorse''
      else if js_lt pop (Num 1) \<and> js_ge prof (Num 1) then ''Puzzle''
      else ''Dog'')"

record analysis =
  a_id :: string
  a_name :: string
  a_category :: string
  a_price :: real
  a_cost :: real
  a_quantitySold :: real
  a_revenue :: real
  a_profit :: real
  a_contributionMargin :: real
  a_popularityIndex :: jsnum
  a_profitabilityIndex :: jsnum
  a_classification :: string

definition analyse_item :: "jsnum \<Rightarrow> jsnum \<Rightarrow> (string \<times> metrics) list \<Rightarrow> menuItem \<Rightarrow> analysis" where
  "analyse_item avgQ avgP itemMetrics item =
     (let m = get_metrics itemMetrics (mi_id item);
          contributionMargin =
            (if 0 < m_revenue m then ((m_revenue m - m_cost m) / m_revenue m) * 100 else 0);
          pop = popularity avgQ m;
          prof = profitability avgP m
      in \<lparr>a_id = mi_id item, a_name = mi_name item, a_category = mi_category item,
          a_price = mi_price item, a_cost = or_default (mi_cost item) 0,
          a_quantitySold = m_quantity m,
          a_revenue = round2 (m_revenue m),
          a_profit = round2 (m_profit m),
          a_contributionMargin = round1 contributionMargin,
          a_popularityIndex = round2_num pop,
          a_profitabilityIndex = round2_num prof,
          a_classification = classify pop prof\<rparr>)"

definition analyse :: "menuItem list \<Rightarrow> orderItem list \<Rightarrow> analysis list" where
  "analyse items orderItems =
     (let itemMetrics = build_itemMetrics orderItems;
          allMetrics = map snd itemMetrics
      in map (analyse_item (avgQuantity allMetrics) (avgProfit allMetrics) itemMetrics) items)"

record class_summary =
  starCount :: nat
  plowhorseCount :: nat
  puzzleCount :: nat
  dogCount :: nat

definition summarise :: "analysis list \<Rightarrow> class_summary" where
  "summarise xs =
     \<lparr>starCount = length (filter (\<lambda>a. a_classification a = ''Star'') xs),
      plowhorseCount = length (filter (\<lambda>a. a_classification a = ''Plowhorse'') xs),
      puzzleCount = length (filter (\<lambda>a. a_classification a = ''Puzzle'') xs),
      dogCount = length (filter (\<lambda>a. a_classification a = ''Dog'') xs)\<rparr>"

section \<open>Demand forecaster (routes/forecast.ts, POST /covers)\<close>

text \<open>
  A \<open>Date\<close> is its \<open>getTime()\<close>, milliseconds since the epoch. The calendar functions
  depend on the time zone of the process and are parameters: \<open>toISODate\<close> is
  \<open>toISOString().slice(0, 10)\<close>, \<open>getDay\<close> is \<open>getDay()\<close> on a valid date, and
  \<open>dowOfKey\<close> is \<open>new Date(key).getDay()\<close>, \<open>None\<close> standing for the \<open>NaN\<close> of an
  invalid date. \<open>today\<close> is the handler's \<open>new Date()\<close>.
\<close>

record clock =
  today :: int
  toISODate :: "int \<Rightarrow> string"
  getDay :: "int \<Rightarrow> nat"
  dowOfKey :: "string \<Rightarrow> nat option"

record order =
  o_closedAt :: "int option"
  o_guests :: "int option"

record stats =
  mean :: real
  std :: real

record prediction =
  p_date :: string
  p_dayOfWeek :: "string option"
  p_predictedCovers :: int
  p_confidenceLow :: int
  p_confidenceHigh :: int

text \<open>A row of the demand-forecast table of one restaurant; the integer columns are nullable.\<close>

record demandForecast =
  forecastDate :: int
  predictedCovers :: "int option"
  confidenceLow :: "int option"
  confidenceHigh :: "int option"
  modelVersion :: string

definition dateKey :: "clock \<Rightarrow> order \<Rightarrow> string" where
  "dateKey clk ord = (case o_closedAt ord of None \<Rightarrow> [] | Some t \<Rightarrow> toISODate clk t)"

text \<open>\<open>o.guests || 1\<close>.\<close>

definition guests_or_1 :: "order \<Rightarrow> int" where
  "guests_or_1 ord = (case o_guests ord of None \<Rightarrow> 1 | Some g \<Rightarrow> if g = 0 then 1 else g)"

definition add_order :: "clock \<Rightarrow> order \<Rightarrow> (string \<times> int) list \<Rightarrow> (string \<times> int) list" where
  "add_order clk ord dailyCovers =
     (let date = dateKey clk ord;
          sofar = (case map_of dailyCovers date of None \<Rightarrow> 0 | Some c \<Rightarrow> c)
      in map_set dailyCovers date (sofar + guests_or_1 ord))"

definition build_dailyCovers :: "clock \<Rightarrow> order list \<Rightarrow> (string \<times> int) list" where
  "build_dailyCovers clk historicalOrders = fold (add_order clk) historicalOrders []"

definition add_dow ::
  "clock \<Rightarrow> string \<times> int \<Rightarrow> (nat option \<times> int list) list \<Rightarrow> (nat option \<times> int list) list" where
  "add_dow clk e dowAverages =
     (let dow = dowOfKey clk (fst e);
          have = (case map_of dowAverages dow of None \<Rightarrow> [] | Some vs \<Rightarrow> vs)
      in map_set dowAverages dow (have @ [snd e]))"

definition build_dowAverages :: "clock \<Rightarrow> (string \<times> int) list \<Rightarrow> (nat option \<times> int list) list" where
  "build_dowAverages clk dailyCovers = fold (add_dow clk) dailyCovers []"

text \<open>Mean and population standard deviation of one weekday's daily covers.\<close>

definition dow_stats :: "int list \<Rightarrow> stats" where
  "dow_stats values =
     (let m = real_of_int (sum_list values) / real (length values)
      in \<lparr>mean = m,
          std = sqrt (sum_list (map (\<lambda>v. (real_of_int v - m) ^ 2) values) / real (length values))\<rparr>)"

definition build_dowMeans :: "clock \<Rightarrow> order list \<Rightarrow> (nat option \<times> stats) list" where
  "build_dowMeans clk historicalOrders =
     map (\<lambda>e. (fst e, dow_stats (snd e)))
       (build_dowAverages clk (build_dailyCovers clk historicalOrders))"

definition default_stats :: stats where
  "default_stats = \<lparr>mean = 50, std = 10\<rparr>"

definition stats_for :: "(nat option \<times> stats) list \<Rightarrow> nat \<Rightarrow> stats" where
  "stats_for dowMeans dow =
     (case map_of dowMeans (Some dow) of None \<Rightarrow> default_stats | Some s \<Rightarrow> s)"

definition day_names :: "string list" where
  "day_names = [''Sun'', ''Mon'', ''Tue'', ''Wed'', ''Thu'', ''Fri'', ''Sat'']"

definition day_name :: "nat \<Rightarrow> string option" where
  "day_name dow = (if dow < length day_names then Some (day_names ! dow) else None)"

text \<open>\<open>r\<close> is the value \<open>Math.random()\<close> returns, in \<open>[0, 1)\<close>.\<close>

definition predicted_of :: "stats \<Rightarrow> real \<Rightarrow> int" where
  "predicted_of st r =
     (let variation = (r - 0.5) * std st * 0.5
      in js_round (mean st + variation))"

definition targetDate :: "clock \<Rightarrow> nat \<Rightarrow> int" where
  "targetDate clk i = today clk + int i * 24 * 60 * 60 * 1000"

text \<open>The object pushed onto \<open>predictions\<close> in iteration \<open>i\<close>.\<close>

definition response_day :: "clock \<Rightarrow> (nat option \<times> stats) list \<Rightarrow> real \<Rightarrow> nat \<Rightarrow> prediction" where
  "response_day clk dowMeans r i =
     (let dow = getDay clk (targetDate clk i);
          st = stats_for dowMeans dow;
          predicted = predicted_of st r
      in \<lparr>p_date = toISODate clk (targetDate clk i),
          p_dayOfWeek = day_name dow,
          p_predictedCovers = max 0 predicted,
          p_confidenceLow = max 0 (js_round (real_of_int predicted - std st * 1.5)),
          p_confidenceHigh = js_round (real_of_int predicted + std st * 1.5)\<rparr>)"

text \<open>The row upserted in iteration \<open>i\<close>; \<open>update\<close> and \<open>create\<close> carry the same values.\<close>

definition stored_day :: "clock \<Rightarrow> (nat option \<times> stats) list \<Rightarrow> real \<Rightarrow> nat \<Rightarrow> demandForecast" where
  "stored_day clk dowMeans r i =
     (let dow = getDay clk (targetDate clk i);
          st = stats_for dowMeans dow;
          predicted = predicted_of st r
      in \<lparr>forecastDate = targetDate clk i,
          predictedCovers = Some predicted,
          confidenceLow = Some (max 0 (js_round (real_of_int predicted - std st * 1.5))),
          confidenceHigh = Some (js_round (real_of_int predicted + std st * 1.5)),
          modelVersion = ''dow_average_v1''\<rparr>)"

text \<open>
  The loop \<open>for (let i = 1; i <= days; i++)\<close>: the state after iteration \<open>Suc n\<close> is the
  body applied to the state after iteration \<open>n\<close>. \<open>rnd i\<close> is the random number drawn in
  iteration \<open>i\<close>; the table is keyed by the forecast date.
\<close>

fun forecast_loop ::
  "clock \<Rightarrow> (nat \<Rightarrow> real) \<Rightarrow> (nat option \<times> stats) list \<Rightarrow> (int \<rightharpoonup> demandForecast) \<Rightarrow> nat
   \<Rightarrow> prediction list \<times> (int \<rightharpoonup> demandForecast)" where
  "forecast_loop clk rnd dowMeans db 0 = ([], db)"
| "forecast_loop clk rnd dowMeans db (Suc n) =
     (let st = forecast_loop clk rnd dowMeans db n;
          i = Suc n
      in (fst st @ [response_day clk dowMeans (rnd i) i],
          (snd st)(targetDate clk i \<mapsto> stored_day clk dowMeans (rnd i) i)))"

definition forecast_covers ::
  "clock \<Rightarrow> (nat \<Rightarrow> real) \<Rightarrow> order list \<Rightarrow> (int \<rightharpoonup> demandForecast) \<Rightarrow> nat
   \<Rightarrow> prediction list \<times> (int \<rightharpoonup> demandForecast)" where
  "forecast_covers clk rnd historicalOrders db days =
     forecast_loop clk rnd (build_dowMeans clk historicalOrders) db days"

section \<open>Labor allocator (routes/staff.ts, POST /schedule/optimize)\<close>

record staff =
  s_id :: string
  s_name :: string
  s_role :: "string option"

record constraints =
  maxHoursPerEmployee :: real
  minHoursPerShift :: real
  maxHoursPerShift :: real

record shift =
  sh_staffId :: string
  sh_staffName :: string
  sh_role :: string
  sh_start :: string
  sh_end :: string
  sh_hours :: real

record dayRecommendation =
  r_date :: string
  r_expectedCovers :: int
  r_servers :: int
  r_cooks :: int
  r_total :: int
  r_suggestedShifts :: "shift list"

text \<open>\<open>constraints?.maxHoursPerEmployee || 40\<close>.\<close>

definition hours_cap :: "constraints option \<Rightarrow> real" where
  "hours_cap cs =
     (case cs of None \<Rightarrow> 40
      | Some c \<Rightarrow> if maxHoursPerEmployee c = 0 then 40 else maxHoursPerEmployee c)"

text \<open>\<open>staffHours.get(id) || 0\<close>.\<close>

definition current_hours :: "(string \<rightharpoonup> real) \<Rightarrow> string \<Rightarrow> real" where
  "current_hours staffHours k = (case staffHours k of None \<Rightarrow> 0 | Some h \<Rightarrow> h)"

definition server_shift :: "string \<Rightarrow> staff \<Rightarrow> shift" where
  "server_shift d server =
     \<lparr>sh_staffId = s_id server, sh_staffName = s_name server, sh_role = ''server'',
      sh_start = d @ ''T11:00:00'', sh_end = d @ ''T20:00:00'', sh_hours = 9\<rparr>"

text \<open>
  The loop \<open>for (let i = 0; i < serversNeeded && i < servers.length; i++)\<close>: the list is
  \<open>servers\<close> from index \<open>i\<close> on, and \<open>need\<close> is \<open>serversNeeded - i\<close>.
\<close>

fun assign_servers ::
  "real \<Rightarrow> string \<Rightarrow> int \<Rightarrow> staff list \<Rightarrow> shift list \<times> (string \<rightharpoonup> real)
   \<Rightarrow> shift list \<times> (string \<rightharpoonup> real)" where
  "assign_servers cap d need [] st = st"
| "assign_servers cap d need (server # rest) st =
     (if need \<le> 0 then st
      else let currentHours = current_hours (snd st) (s_id server)
           in assign_servers cap d (need - 1) rest
                (if currentHours < cap
                 then (fst st @ [server_shift d server],
                       (snd st)(s_id server \<mapsto> currentHours + 9))
                 else st))"

text \<open>\<open>forecast.predictedCovers || 50\<close>.\<close>

definition covers_of :: "demandForecast \<Rightarrow> int" where
  "covers_of forecast =
     (case predictedCovers forecast of None \<Rightarrow> 50 | Some c \<Rightarrow> if c = 0 then 50 else c)"

text \<open>One iteration of \<open>for (const forecast of forecasts)\<close>.\<close>

definition optimize_day ::
  "(int \<Rightarrow> string) \<Rightarrow> real \<Rightarrow> staff list \<Rightarrow> demandForecast \<Rightarrow> (string \<rightharpoonup> real)
   \<Rightarrow> dayRecommendation \<times> (string \<rightharpoonup> real)" where
  "optimize_day isoDate cap staffList forecast staffHours =
     (let covers = covers_of forecast;
          d = isoDate (forecastDate forecast);
          serversNeeded = js_ceil (real_of_int covers / 20);
          cooksNeeded = js_ceil (real_of_int covers / 40);
          servers = filter (\<lambda>s. s_role s = Some ''server'') staffList;
          res = assign_servers cap d serversNeeded servers ([], staffHours)
      in (\<lparr>r_date = d, r_expectedCovers = covers, r_servers = serversNeeded,
           r_cooks = cooksNeeded, r_total = serversNeeded + cooksNeeded + 1,
           r_suggestedShifts = fst res\<rparr>, snd res))"

fun optimize_loop ::
  "(int \<Rightarrow> string) \<Rightarrow> real \<Rightarrow> staff list \<Rightarrow> demandForecast list
   \<Rightarrow> dayRecommendation list \<times> (string \<rightharpoonup> real) \<Rightarrow> dayRecommendation list \<times> (string \<rightharpoonup> real)" where
  "optimize_loop isoDate cap staffList [] st = st"
| "optimize_loop isoDate cap staffList (forecast # rest) st =
     (let day = optimize_day isoDate cap staffList forecast (snd st)
      in optimize_loop isoDate cap staffList rest (fst st @ [fst day], snd day))"

text \<open>
  The handler: \<open>recommendations\<close> and the \<open>staffUtilization\<close> of the summary
  (\<open>Object.fromEntries(staffHours)\<close>).
\<close>

definition optimize ::
  "(int \<Rightarrow> string) \<Rightarrow> constraints option \<Rightarrow> staff list \<Rightarrow> demandForecast list
   \<Rightarrow> dayRecommendation list \<times> (string \<rightharpoonup> real)" where
  "optimize isoDate cs staffList forecasts =
     optimize_loop isoDate (hours_cap cs) staffList forecasts ([], Map.empty)"

definition staffUtilization ::
  "(int \<Rightarrow> string) \<Rightarrow> constraints option \<Rightarrow> staff list \<Rightarrow> demandForecast list
   \<Rightarrow> (string \<rightharpoonup> real)" where
  "staffUtilization isoDate cs staffList forecasts = snd (optimize isoDate cs staffList forecasts)"

definition recommendations ::
  "(int \<Rightarrow> string) \<Rightarrow> constraints option \<Rightarrow> staff list \<Rightarrow> demandForecast list
   \<Rightarrow> dayRecommendation list" where
  "recommendations isoDate cs staffList forecasts = fst (optimize isoDate cs staffList forecasts)"

section \<open>Churn ranker (routes/customers.ts, GET /at-risk)\<close>

record customer =
  c_id :: string
  c_churnRisk :: "real option"
  c_lastVisit :: "int option"
  c_lifetimeValue :: "real option"

record enriched =
  e_id :: string
  e_churnRisk :: "real option"
  e_daysSinceLastVisit :: "int option"
  e_churnRiskPercent :: int
  e_lifetimeValue :: real
  e_recommendedAction :: string

record at_risk_summary =
  total_count :: nat
  avgChurnRisk :: jsnum
  totalAtRiskValue :: real

text \<open>
  The query \<open>findMany({where: {churnRisk: {gte: minRisk}}, orderBy: {churnRisk: 'desc'},
  take: limit})\<close> over the customers of the restaurant: a \<open>null\<close> risk never satisfies
  \<open>gte\<close>; rows of equal risk are returned in table order.
\<close>

definition at_risk_where :: "real \<Rightarrow> customer \<Rightarrow> bool" where
  "at_risk_where minRisk c = (case c_churnRisk c of None \<Rightarrow> False | Some r \<Rightarrow> minRisk \<le> r)"

definition find_at_risk :: "customer list \<Rightarrow> real \<Rightarrow> nat \<Rightarrow> customer list" where
  "find_at_risk table minRisk limit =
     take limit (sort_key (\<lambda>c. - Number_of (c_churnRisk c)) (filter (at_risk_where minRisk) table))"

fun getChurnAction :: "real \<Rightarrow> int option \<Rightarrow> string" where
  "getChurnAction churnRisk daysSinceVisit =
     (if 0.8 \<le> churnRisk then ''Urgent: Send personalized win-back offer with significant discount''
      else if 0.6 \<le> churnRisk then ''Send re-engagement email with special offer''
      else if (case daysSinceVisit of None \<Rightarrow> False | Some n \<Rightarrow> n \<noteq> 0 \<and> 60 < n)
        then ''Add to win-back campaign list''
      else ''Monitor - no immediate action needed'')"

text \<open>\<open>nowMs\<close> is \<open>Date.now()\<close>.\<close>

definition enrich :: "int \<Rightarrow> customer \<Rightarrow> enriched" where
  "enrich nowMs c =
     (let daysSinceVisit =
            (case c_lastVisit c of None \<Rightarrow> None
             | Some t \<Rightarrow> Some \<lfloor>real_of_int (nowMs - t) / (1000 * 60 * 60 * 24)\<rfloor>)
      in \<lparr>e_id = c_id c, e_churnRisk = c_churnRisk c,
          e_daysSinceLastVisit = daysSinceVisit,
          e_churnRiskPercent = js_round (Number_of (c_churnRisk c) * 100),
          e_lifetimeValue = round2 (or_default (c_lifetimeValue c) 0),
          e_recommendedAction = getChurnAction (Number_of (c_churnRisk c)) daysSinceVisit\<rparr>)"

definition summary_of :: "enriched list \<Rightarrow> at_risk_summary" where
  "summary_of es =
     \<lparr>total_count = length es,
      avgChurnRisk =
        js_round_num
          (js_mul (js_div (Num (sum_list (map (\<lambda>c. Number_of (e_churnRisk c)) es)))
                          (Num (real (length es))))
                  (Num 100)),
      totalAtRiskValue = round2 (sum_list (map e_lifetimeValue es))\<rparr>"

definition at_risk :: "int \<Rightarrow> customer list \<Rightarrow> real \<Rightarrow> nat \<Rightarrow> enriched list \<times> at_risk_summary" where
  "at_risk nowMs table minRisk limit =
     (let customers = find_at_risk table minRisk limit;
          es = map (enrich nowMs) customers
      in (es, summary_of es))"

section \<open>Aggregated sales of one menu item\<close>

text \<open>
  The aggregated sales input of the classifier, stated directly on the order items of the
  date range: the quantity sold of a menu item and the profit made on it.
\<close>

definition sold_quantity :: "orderItem list \<Rightarrow> string \<Rightarrow> real" where
  "sold_quantity orderItems k =
     sum_list (map (\<lambda>oi. real_of_int (oi_quantity oi))
       (filter (\<lambda>oi. oi_menuItemId oi = k) orderItems))"

definition sold_profit :: "orderItem list \<Rightarrow> string \<Rightarrow> real" where
  "sold_profit orderItems k =
     sum_list (map (\<lambda>oi. Number_of (oi_unitPrice oi) * real_of_int (oi_quantity oi)
                          - or_default (oi_menuItem_cost oi) 0 * real_of_int (oi_quantity oi))
       (filter (\<lambda>oi. oi_menuItemId oi = k) orderItems))"

section \<open>Example inputs\<close>

definition itemA :: menuItem where
  "itemA = \<lparr>mi_id = ''A'', mi_name = ''Soup'', mi_category = ''Starters'', mi_price = 1, mi_cost = None\<rparr>"

definition itemB :: menuItem where
  "itemB = \<lparr>mi_id = ''B'', mi_name = ''Stew'', mi_category = ''Mains'', mi_price = 1, mi_cost = None\<rparr>"

definition soldA :: orderItem where
  "soldA = \<lparr>oi_menuItemId = ''A'', oi_quantity = 249, oi_unitPrice = Some 1, oi_menuItem_cost = None\<rparr>"

definition soldB :: orderItem where
  "soldB = \<lparr>oi_menuItemId = ''B'', oi_quantity = 251, oi_unitPrice = Some 1, oi_menuItem_cost = None\<rparr>"

definition soldAtCost :: orderItem where
  "soldAtCost = \<lparr>oi_menuItemId = ''A'', oi_quantity = 1, oi_unitPrice = Some 5, oi_menuItem_cost = Some 5\<rparr>"

text \<open>
  A clock in UTC whose \<open>today\<close> is Wednesday 1970-01-07, restricted to the three Thursdays
  1969-12-25, 1970-01-01 and 1970-01-08.
\<close>

definition demo_iso_date :: "int \<Rightarrow> string" where
  "demo_iso_date t =
     (if t < 0 then ''1969-12-25'' else if t < 86400000 then ''1970-01-01'' else ''1970-01-08'')"

definition demo_get_day :: "int \<Rightarrow> nat" where
  "demo_get_day t = nat ((t div 86400000 + 4) mod 7)"

definition demo_dow_of_key :: "string \<Rightarrow> nat option" where
  "demo_dow_of_key k =
     (if k = ''1969-12-25'' \<or> k = ''1970-01-01'' \<or> k = ''1970-01-08'' then Some 4 else None)"

definition demo_clock :: clock where
  "demo_clock = \<lparr>today = 518400000, toISODate = demo_iso_date, getDay = demo_get_day,
     dowOfKey = demo_dow_of_key\<rparr>"

definition low_draw :: "nat \<Rightarrow> real" where
  "low_draw i = 0"

definition no_rows :: "int \<rightharpoonup> demandForecast" where
  "no_rows = Map.empty"

definition two_thursdays :: "order list" where
  "two_thursdays = [\<lparr>o_closedAt = Some (- 604800000), o_guests = Some 6\<rparr>,
                    \<lparr>o_closedAt = Some 0, o_guests = Some 2\<rparr>]"

definition negative_guests :: "order list" where
  "negative_guests = [\<lparr>o_closedAt = Some 0, o_guests = Some (- 100)\<rparr>]"

definition week_iso_date :: "int \<Rightarrow> string" where
  "week_iso_date t =
     (if t < 86400000 then ''2024-06-03'' else if t < 172800000 then ''2024-06-04''
      else if t < 259200000 then ''2024-06-05'' else if t < 345600000 then ''2024-06-06''
      else ''2024-06-07'')"

definition ann :: staff where
  "ann = \<lparr>s_id = ''s1'', s_name = ''Ann'', s_role = Some ''server''\<rparr>"

definition bob :: staff where
  "bob = \<lparr>s_id = ''s2'', s_name = ''Bob'', s_role = Some ''cook''\<rparr>"

definition forecast_on :: "int \<Rightarrow> int \<Rightarrow> demandForecast" where
  "forecast_on k covers =
     \<lparr>forecastDate = k * 86400000, predictedCovers = Some covers, confidenceLow = Some 0,
      confidenceHigh = Some (2 * covers), modelVersion = ''dow_average_v1''\<rparr>"

definition five_days :: "demandForecast list" where
  "five_days =
     [forecast_on 0 20, forecast_on 1 20, forecast_on 2 20, forecast_on 3 20, forecast_on 4 20]"

definition no_hours :: "string \<rightharpoonup> real" where
  "no_hours = Map.empty"

definition loyal :: customer where
  "loyal = \<lparr>c_id = ''c1'', c_churnRisk = Some 0.2, c_lastVisit = Some 0, c_lifetimeValue = Some 120\<rparr>"

lemmas menu_defs = analyse_def analyse_item_def avgQuantity_def avgProfit_def popularity_def
  profitability_def classify_def round2_num_def round2_def round1_def js_round_def
  build_itemMetrics_def add_order_item_def get_metrics_def zero_metrics_def Number_of_def
  or_default_def summarise_def

lemmas example_items = itemA_def itemB_def soldA_def soldB_def soldAtCost_def

lemmas forecast_defs = forecast_covers_def build_dowMeans_def build_dowAverages_def
  build_dailyCovers_def add_dow_def add_order_def dateKey_def guests_or_1_def dow_stats_def
  stats_for_def default_stats_def predicted_of_def response_day_def stored_day_def
  targetDate_def js_round_def day_name_def day_names_def

lemmas example_clock = demo_clock_def demo_iso_date_def demo_get_day_def demo_dow_of_key_def
  low_draw_def no_rows_def two_thursdays_def negative_guests_def

lemmas staff_defs = staffUtilization_def recommendations_def optimize_def optimize_day_def
  hours_cap_def covers_of_def js_ceil_def current_hours_def server_shift_def

lemmas example_staff = week_iso_date_def ann_def bob_def forecast_on_def five_days_def no_hours_def

section \<open>Menu classifier\<close>

lemma classify_cases:
  "classify pop prof = ''Star'' \<or> classify pop prof = ''Plowhorse'' \<or>
   classify pop prof = ''Puzzle'' \<or> classify pop prof = ''Dog''"
  by (simp add: classify_def)

lemma count_four:
  "length (filter (\<lambda>a. a_classification a = ''Star'') xs)
   + length (filter (\<lambda>a. a_classification a = ''Plowhorse'') xs)
   + length (filter (\<lambda>a. a_classification a = ''Puzzle'') xs)
   + length (filter (\<lambda>a. a_classification a = ''Dog'') xs)
   = length (filter (\<lambda>a. a_classification a \<in> {''Star'', ''Plowhorse'', ''Puzzle'', ''Dog''}) xs)"
  by (induction xs) auto

lemma analyse_item_class:
  "a_classification (analyse_item avgQ avgP im item)
     \<in> {''Star'', ''Plowhorse'', ''Puzzle'', ''Dog''}"
  using classify_cases by (auto simp: analyse_item_def Let_def)

lemma analyse_classes:
  "a \<in> set (analyse items ois) \<Longrightarrow>
     a_classification a \<in> {''Star'', ''Plowhorse'', ''Puzzle'', ''Dog''}"
  using analyse_item_class by (auto simp: analyse_def Let_def)

text \<open>
  Claim C3. Every analysed item carries one of the four labels Star, Plowhorse, Puzzle and
  Dog, there is one analysis entry per active menu item, and the four counts of the summary
  add up to the number of items.
\<close>

theorem classification_total:
  "(\<forall>a \<in> set (analyse items orderItems).
       a_classification a \<in> {''Star'', ''Plowhorse'', ''Puzzle'', ''Dog''})
   \<and> length (analyse items orderItems) = length items
   \<and> starCount (summarise (analyse items orderItems))
     + plowhorseCount (summarise (analyse items orderItems))
     + puzzleCount (summarise (analyse items orderItems))
     + dogCount (summarise (analyse items orderItems)) = length items"
proof -
  let ?xs = "analyse items orderItems"
  have cls: "\<forall>a \<in> set ?xs. a_classification a \<in> {''Star'', ''Plowhorse'', ''Puzzle'', ''Dog''}"
    using analyse_classes by blast
  have len: "length ?xs = length items"
    by (simp add: analyse_def Let_def)
  have "filter (\<lambda>a. a_classification a \<in> {''Star'', ''Plowhorse'', ''Puzzle'', ''Dog''}) ?xs = ?xs"
    using cls by (simp add: filter_id_conv)
  then have "starCount (summarise ?xs) + plowhorseCount (summarise ?xs)
      + puzzleCount (summarise ?xs) + dogCount (summarise ?xs) = length ?xs"
    using count_four [of ?xs] by (simp add: summarise_def)
  with cls len show ?thesis by simp
qed

text \<open>Two items sold 249 and 251 times: one Dog and one Star, two items counted.\<close>

theorem classification_total_witness:
  "map a_classification (analyse [itemA, itemB] [soldA, soldB]) = [''Dog'', ''Star'']
   \<and> a_classification (hd (analyse [itemA, itemB] [soldA, soldB]))
       \<in> {''Star'', ''Plowhorse'', ''Puzzle'', ''Dog''}
   \<and> starCount (summarise (analyse [itemA, itemB] [soldA, soldB]))
     + plowhorseCount (summarise (analyse [itemA, itemB] [soldA, soldB]))
     + puzzleCount (summarise (analyse [itemA, itemB] [soldA, soldB]))
     + dogCount (summarise (analyse [itemA, itemB] [soldA, soldB])) = 2"
proof -
  have v: "map a_classification (analyse [itemA, itemB] [soldA, soldB]) = [''Dog'', ''Star'']"
    by (simp add: menu_defs example_items Let_def)
  have "hd (analyse [itemA, itemB] [soldA, soldB]) \<in> set (analyse [itemA, itemB] [soldA, soldB])"
    by (simp add: analyse_def Let_def)
  with v classification_total [of "[itemA, itemB]" "[soldA, soldB]"]
  show ?thesis by simp
qed

text \<open>
  The indices reported for the first of two items sold 249 and 251 times are both \<open>1\<close>
  (0.996 rounded to two decimals), and the item is a Dog: a reported index of 1.0 on both
  axes does not make an item a Star.
\<close>

theorem reported_one_not_star:
  "a_popularityIndex (hd (analyse [itemA, itemB] [soldA, soldB])) = Num 1
   \<and> a_profitabilityIndex (hd (analyse [itemA, itemB] [soldA, soldB])) = Num 1
   \<and> a_classification (hd (analyse [itemA, itemB] [soldA, soldB])) = ''Dog''"
  by (simp add: menu_defs example_items Let_def)

text \<open>
  Claim C4, amended. The classification is taken on the unrounded indices
  \<open>quantity / avgQuantity\<close> and \<open>profit / avgProfit\<close>: an item is a Star exactly when both
  are at least 1, so that an item whose unrounded indices both equal 1 is a Star. The
  indices of the response are rounded to two decimals after the classification.
\<close>

theorem star_boundary_inclusive:
  assumes "i < length items"
  shows "(let itemMetrics = build_itemMetrics orderItems;
              allMetrics = map snd itemMetrics;
              m = get_metrics itemMetrics (mi_id (items ! i));
              pop = popularity (avgQuantity allMetrics) m;
              prof = profitability (avgProfit allMetrics) m
          in (pop = Num 1 \<and> prof = Num 1
                \<longrightarrow> a_classification (analyse items orderItems ! i) = ''Star'')
           \<and> (js_ge pop (Num 1) \<and> js_ge prof (Num 1)
                \<longleftrightarrow> a_classification (analyse items orderItems ! i) = ''Star''))"
  using assms by (auto simp: analyse_def analyse_item_def classify_def Let_def)

text \<open>A menu of one item, sold 249 times: both indices are exactly 1 and the item is a Star.\<close>

theorem star_boundary_inclusive_witness:
  "popularity (avgQuantity (map snd (build_itemMetrics [soldA])))
       (get_metrics (build_itemMetrics [soldA]) (mi_id ([itemA] ! 0))) = Num 1
   \<and> profitability (avgProfit (map snd (build_itemMetrics [soldA])))
       (get_metrics (build_itemMetrics [soldA]) (mi_id ([itemA] ! 0))) = Num 1
   \<and> a_classification (analyse [itemA] [soldA] ! 0) = ''Star''"
proof -
  have pop: "popularity (avgQuantity (map snd (build_itemMetrics [soldA])))
       (get_metrics (build_itemMetrics [soldA]) (mi_id ([itemA] ! 0))) = Num 1"
    by (simp add: menu_defs example_items Let_def)
  have prof: "profitability (avgProfit (map snd (build_itemMetrics [soldA])))
       (get_metrics (build_itemMetrics [soldA]) (mi_id ([itemA] ! 0))) = Num 1"
    by (simp add: menu_defs example_items Let_def)
  have "0 < length [itemA]" by simp
  from star_boundary_inclusive [OF this, of "[soldA]"] pop prof
  show ?thesis by (simp add: Let_def)
qed

subsection \<open>The averages\<close>

lemma map_set_keys: "fst ` set (map_set m k v) = insert k (fst ` set m)"
  by (induction m k v rule: map_set.induct) auto

lemma map_of_map_set: "map_of (map_set m k v) = (map_of m)(k \<mapsto> v)"
  by (induction m k v rule: map_set.induct) auto

lemma map_set_distinct: "distinct (map fst m) \<Longrightarrow> distinct (map fst (map_set m k v))"
proof (induction m k v rule: map_set.induct)
  case (1 k v)
  then show ?case by simp
next
  case (2 k' v' m k v)
  then show ?case
    using map_set_keys [of m k v] by (auto simp: image_iff)
qed

lemma map_set_values: "set (map_set m k v) \<subseteq> insert (k, v) (set m)"
  by (induction m k v rule: map_set.induct) auto

lemma get_metrics_add:
  "get_metrics (add_order_item oi im) k =
     (if k = oi_menuItemId oi
      then \<lparr>m_quantity = m_quantity (get_metrics im k) + real_of_int (oi_quantity oi),
            m_revenue = m_revenue (get_metrics im k)
               + Number_of (oi_unitPrice oi) * real_of_int (oi_quantity oi),
            m_cost = m_cost (get_metrics im k)
               + or_default (oi_menuItem_cost oi) 0 * real_of_int (oi_quantity oi),
            m_profit = m_profit (get_metrics im k)
               + (Number_of (oi_unitPrice oi) * real_of_int (oi_quantity oi)
                  - or_default (oi_menuItem_cost oi) 0 * real_of_int (oi_quantity oi))\<rparr>
      else get_metrics im k)"
  by (simp add: get_metrics_def add_order_item_def Let_def map_of_map_set)

lemma fold_quantity:
  "m_quantity (get_metrics (fold add_order_item ois acc) k)
     = m_quantity (get_metrics acc k) + sold_quantity ois k"
  by (induction ois arbitrary: acc) (simp_all add: sold_quantity_def get_metrics_add)

lemma fold_profit:
  "m_profit (get_metrics (fold add_order_item ois acc) k)
     = m_profit (get_metrics acc k) + sold_profit ois k"
  by (induction ois arbitrary: acc) (simp_all add: sold_profit_def get_metrics_add)

lemma fold_keys:
  "fst ` set (fold add_order_item ois acc) = oi_menuItemId ` set ois \<union> fst ` set acc"
  by (induction ois arbitrary: acc) (auto simp: add_order_item_def Let_def map_set_keys)

lemma fold_distinct:
  "distinct (map fst acc) \<Longrightarrow> distinct (map fst (fold add_order_item ois acc))"
  by (induction ois arbitrary: acc) (simp_all add: add_order_item_def Let_def map_set_distinct)

lemma itemMetrics_entries:
  assumes "(k, m) \<in> set (build_itemMetrics ois)"
  shows "m_quantity m = sold_quantity ois k \<and> m_profit m = sold_profit ois k"
proof -
  have "distinct (map fst (build_itemMetrics ois))"
    by (simp add: build_itemMetrics_def fold_distinct)
  with assms have "map_of (build_itemMetrics ois) k = Some m" by simp
  then have "get_metrics (build_itemMetrics ois) k = m" by (simp add: get_metrics_def)
  then show ?thesis
    using fold_quantity [of ois "[]" k] fold_profit [of ois "[]" k]
    by (simp add: build_itemMetrics_def get_metrics_def zero_metrics_def)
qed

lemma itemMetrics_empty: "build_itemMetrics ois = [] \<longleftrightarrow> ois = []"
  using fold_keys [of ois "[]"] by (auto simp: build_itemMetrics_def)

text \<open>
  One item sold once at a price equal to its cost: the set of sold items is not empty, the
  mean profit is 0, and \<open>avgProfit\<close> is 1 and not that mean.
\<close>

theorem zero_mean_defaults:
  "map snd (build_itemMetrics [soldAtCost]) \<noteq> []
   \<and> sum_list (map m_profit (map snd (build_itemMetrics [soldAtCost])))
       / real (length (map snd (build_itemMetrics [soldAtCost]))) = 0
   \<and> avgProfit (map snd (build_itemMetrics [soldAtCost])) = Num 1"
  by (simp add: menu_defs example_items Let_def)

text \<open>
  Claim C7, amended. The aggregation holds one entry per menu item with an order item in
  range, carrying that item's quantity and profit. \<open>avgQuantity\<close> and \<open>avgProfit\<close> are the
  arithmetic means over these entries whenever the mean is not 0 (a negative mean is used
  as it is); they are 1 when there is no order item in range and also when the mean is 0.
\<close>

theorem averages_mean_or_one:
  "(let itemMetrics = build_itemMetrics orderItems;
        allMetrics = map snd itemMetrics;
        q = sum_list (map m_quantity allMetrics) / real (length allMetrics);
        p = sum_list (map m_profit allMetrics) / real (length allMetrics)
    in distinct (map fst itemMetrics)
     \<and> fst ` set itemMetrics = oi_menuItemId ` set orderItems
     \<and> (\<forall>e \<in> set itemMetrics. m_quantity (snd e) = sold_quantity orderItems (fst e)
                              \<and> m_profit (snd e) = sold_profit orderItems (fst e))
     \<and> avgQuantity allMetrics = (if orderItems = [] \<or> q = 0 then Num 1 else Num q)
     \<and> avgProfit allMetrics = (if orderItems = [] \<or> p = 0 then Num 1 else Num p))"
proof -
  let ?im = "build_itemMetrics orderItems"
  have d: "distinct (map fst ?im)" by (simp add: build_itemMetrics_def fold_distinct)
  have k: "fst ` set ?im = oi_menuItemId ` set orderItems"
    using fold_keys [of orderItems "[]"] by (simp add: build_itemMetrics_def)
  have e: "\<forall>e \<in> set ?im. m_quantity (snd e) = sold_quantity orderItems (fst e)
                         \<and> m_profit (snd e) = sold_profit orderItems (fst e)"
    using itemMetrics_entries by force
  have q: "avgQuantity (map snd ?im) =
      (if orderItems = [] \<or> sum_list (map m_quantity (map snd ?im)) / real (length (map snd ?im)) = 0
       then Num 1 else Num (sum_list (map m_quantity (map snd ?im)) / real (length (map snd ?im))))"
    using itemMetrics_empty [of orderItems] by (auto simp: avgQuantity_def)
  have p: "avgProfit (map snd ?im) =
      (if orderItems = [] \<or> sum_list (map m_profit (map snd ?im)) / real (length (map snd ?im)) = 0
       then Num 1 else Num (sum_list (map m_profit (map snd ?im)) / real (length (map snd ?im))))"
    using itemMetrics_empty [of orderItems] by (auto simp: avgProfit_def)
  show ?thesis unfolding Let_def using d k e q p by blast
qed

text \<open>Two items sold 249 and 251 times at price 1 and no cost: both means are 250.\<close>

theorem averages_mean_or_one_witness:
  "map fst (build_itemMetrics [soldA, soldB]) = [''A'', ''B'']
   \<and> m_quantity (snd (hd (build_itemMetrics [soldA, soldB]))) = sold_quantity [soldA, soldB] ''A''
   \<and> avgQuantity (map snd (build_itemMetrics [soldA, soldB])) = Num 250
   \<and> avgProfit (map snd (build_itemMetrics [soldA, soldB])) = Num 250"
proof -
  have keys: "map fst (build_itemMetrics [soldA, soldB]) = [''A'', ''B'']"
    by (simp add: menu_defs example_items Let_def)
  have hd_in: "hd (build_itemMetrics [soldA, soldB]) \<in> set (build_itemMetrics [soldA, soldB])"
    by (simp add: menu_defs example_items Let_def)
  have hd_key: "fst (hd (build_itemMetrics [soldA, soldB])) = ''A''"
    by (simp add: menu_defs example_items Let_def)
  have q: "sum_list (map m_quantity (map snd (build_itemMetrics [soldA, soldB])))
             / real (length (map snd (build_itemMetrics [soldA, soldB]))) = 250"
    by (simp add: menu_defs example_items Let_def)
  have p: "sum_list (map m_profit (map snd (build_itemMetrics [soldA, soldB])))
             / real (length (map snd (build_itemMetrics [soldA, soldB]))) = 250"
    by (simp add: menu_defs example_items Let_def)
  from averages_mean_or_one [of "[soldA, soldB]"]
  have "(\<forall>e \<in> set (build_itemMetrics [soldA, soldB]).
            m_quantity (snd e) = sold_quantity [soldA, soldB] (fst e)
            \<and> m_profit (snd e) = sold_profit [soldA, soldB] (fst e))
      \<and> avgQuantity (map snd (build_itemMetrics [soldA, soldB])) = Num 250
      \<and> avgProfit (map snd (build_itemMetrics [soldA, soldB])) = Num 250"
    unfolding Let_def q p by simp
  with hd_in hd_key keys show ?thesis by metis
qed

section \<open>Demand forecaster\<close>

lemma variation_lower:
  fixes s r :: real
  assumes "0 \<le> s" "0 \<le> r"
  shows "- (s / 4) \<le> (r - 0.5) * s * 0.5"
proof -
  have "0 \<le> r * s" using assms by simp
  then show ?thesis by (simp add: algebra_simps)
qed

lemma variation_upper:
  fixes s r :: real
  assumes "0 \<le> s" "r < 1"
  shows "(r - 0.5) * s * 0.5 \<le> s / 4"
proof -
  have "r * s \<le> 1 * s" using assms by (intro mult_right_mono) auto
  then show ?thesis by (simp add: algebra_simps)
qed

lemma round_below: "0 \<le> s \<Longrightarrow> js_round (real_of_int p - s * 1.5) \<le> p"
  unfolding js_round_def by (simp add: floor_le_iff) 

lemma round_above: "0 \<le> s \<Longrightarrow> p \<le> js_round (real_of_int p + s * 1.5)"
  unfolding js_round_def by (simp add: le_floor_iff)

lemma predicted_lower:
  assumes "0 \<le> mean st" "0 \<le> std st" "0 \<le> r"
  shows "- (std st / 4) - 1 / 2 < real_of_int (predicted_of st r)"
proof -
  let ?x = "mean st + (r - 0.5) * std st * 0.5"
  have "?x + 1 / 2 < real_of_int \<lfloor>?x + 1 / 2\<rfloor> + 1" by linarith
  moreover have "- (std st / 4) \<le> ?x"
    using variation_lower [OF assms(2,3)] assms(1) by linarith
  ultimately have "- (std st / 4) - 1 / 2 < real_of_int \<lfloor>?x + 1 / 2\<rfloor>"
    by linarith
  then show ?thesis
    by (simp add: predicted_of_def js_round_def Let_def)
qed

lemma band_of_stats:
  assumes "0 \<le> mean st" "0 \<le> std st" "0 \<le> r"
  shows "max 0 (js_round (real_of_int (predicted_of st r) - std st * 1.5)) \<le> max 0 (predicted_of st r)
    \<and> max 0 (predicted_of st r) \<le> js_round (real_of_int (predicted_of st r) + std st * 1.5)"
proof -
  let ?p = "predicted_of st r"
  have lo: "js_round (real_of_int ?p - std st * 1.5) \<le> ?p"
    using assms(2) by (rule round_below)
  have hi: "?p \<le> js_round (real_of_int ?p + std st * 1.5)"
    using assms(2) by (rule round_above)
  have "0 \<le> real_of_int ?p + std st * 1.5 + 1 / 2"
    using predicted_lower [OF assms] assms(2) by simp
  then have nonneg: "0 \<le> js_round (real_of_int ?p + std st * 1.5)"
    by (simp add: js_round_def le_floor_iff)
  from lo hi nonneg show ?thesis by simp
qed


lemma forecast_loop_length: "length (fst (forecast_loop clk rnd dm db n)) = n"
  by (induction n) (simp_all add: Let_def)

lemma forecast_loop_nth:
  "1 \<le> i \<Longrightarrow> i \<le> n \<Longrightarrow>
     fst (forecast_loop clk rnd dm db n) ! (i - 1) = response_day clk dm (rnd i) i"
proof (induction n)
  case 0
  then show ?case by simp
next
  case (Suc n)
  show ?case
  proof (cases "i = Suc n")
    case True
    then show ?thesis
      by (simp add: Let_def nth_append forecast_loop_length)
  next
    case False
    with Suc.prems have "i \<le> n" by simp
    moreover from this Suc.prems have "i - 1 < n" by simp
    ultimately show ?thesis
      using Suc.IH Suc.prems(1) by (simp add: Let_def nth_append forecast_loop_length)
  qed
qed

lemma forecast_loop_set:
  "set (fst (forecast_loop clk rnd dm db n)) = (\<lambda>i. response_day clk dm (rnd i) i) ` {1..n}"
proof (induction n)
  case 0
  then show ?case by simp
next
  case (Suc n)
  have "{1..Suc n} = insert (Suc n) {1..n}" by auto
  with Suc show ?case by (simp add: Let_def)
qed

lemma targetDate_inj: "targetDate clk i = targetDate clk j \<longleftrightarrow> i = j"
  by (simp add: targetDate_def)

lemma forecast_loop_stored:
  "1 \<le> i \<Longrightarrow> i \<le> n \<Longrightarrow>
     snd (forecast_loop clk rnd dm db n) (targetDate clk i) = Some (stored_day clk dm (rnd i) i)"
proof (induction n)
  case 0
  then show ?case by simp
next
  case (Suc n)
  show ?case
  proof (cases "i = Suc n")
    case True
    then show ?thesis by (simp add: Let_def)
  next
    case False
    with Suc.prems have "i \<le> n" by simp
    with Suc.IH Suc.prems(1) False show ?thesis
      by (simp add: Let_def targetDate_inj)
  qed
qed

lemma dailyCovers_keys_fold:
  "fst ` set (fold (add_order clk) os acc) = dateKey clk ` set os \<union> fst ` set acc"
  by (induction os arbitrary: acc) (auto simp: add_order_def Let_def map_set_keys)

lemma dowAverages_keys_fold:
  "fst ` set (fold (add_dow clk) es acc) = dowOfKey clk ` fst ` set es \<union> fst ` set acc"
  by (induction es arbitrary: acc) (auto simp: add_dow_def Let_def map_set_keys)

lemma dowMeans_keys:
  "fst ` set (build_dowMeans clk os) = dowOfKey clk ` dateKey clk ` set os"
proof -
  have "fst ` set (build_dowMeans clk os) = fst ` set (build_dowAverages clk (build_dailyCovers clk os))"
    by (force simp: build_dowMeans_def)
  then show ?thesis
    by (simp add: build_dowAverages_def build_dailyCovers_def dowAverages_keys_fold dailyCovers_keys_fold)
qed

lemma stats_for_cases:
  "stats_for dm dow = default_stats \<or> (Some dow, stats_for dm dow) \<in> set dm"
  by (auto simp: stats_for_def split: option.splits dest: map_of_SomeD)

lemma stats_for_no_history:
  "Some dow \<notin> fst ` set dm \<Longrightarrow> stats_for dm dow = default_stats"
proof -
  assume "Some dow \<notin> fst ` set dm"
  then have "map_of dm (Some dow) = None" by (simp add: map_of_eq_None_iff)
  then show ?thesis by (simp add: stats_for_def)
qed

lemma dow_stats_std: "0 \<le> std (dow_stats vs)"
proof -
  have "0 \<le> sum_list (map (\<lambda>v. (real_of_int v - m) ^ 2) vs)" for m
    by (rule sum_list_nonneg) auto
  then show ?thesis
    by (simp add: dow_stats_def Let_def)
qed

lemma dow_stats_mean: "\<forall>v \<in> set vs. 0 \<le> v \<Longrightarrow> 0 \<le> mean (dow_stats vs)"
proof -
  assume "\<forall>v \<in> set vs. 0 \<le> v"
  then have "0 \<le> sum_list vs" by (simp add: sum_list_nonneg)
  then show ?thesis by (simp add: dow_stats_def Let_def)
qed

lemma dowMeans_std:
  assumes "e \<in> set (build_dowMeans clk os)"
  shows "0 \<le> std (snd e)"
  using assms dow_stats_std by (auto simp: build_dowMeans_def)

lemma dailyCovers_nonneg_fold:
  assumes "\<forall>ord \<in> set os. 0 \<le> guests_or_1 ord" "\<forall>e \<in> set acc. 0 \<le> snd e"
  shows "\<forall>e \<in> set (fold (add_order clk) os acc). 0 \<le> snd e"
  using assms
proof (induction os arbitrary: acc)
  case Nil
  then show ?case by simp
next
  case (Cons ord os)
  let ?date = "dateKey clk ord"
  let ?sofar = "case map_of acc ?date of None \<Rightarrow> 0 | Some c \<Rightarrow> c"
  have "0 \<le> ?sofar"
    using Cons.prems(2) by (auto split: option.splits dest!: map_of_SomeD)
  moreover have "0 \<le> guests_or_1 ord" using Cons.prems(1) by simp
  ultimately have new: "0 \<le> ?sofar + guests_or_1 ord" by simp
  have "\<forall>e \<in> set (add_order clk ord acc). 0 \<le> snd e"
  proof
    fix e assume "e \<in> set (add_order clk ord acc)"
    then have "e = (?date, ?sofar + guests_or_1 ord) \<or> e \<in> set acc"
      using map_set_values [of acc ?date "?sofar + guests_or_1 ord"]
      by (auto simp: add_order_def Let_def)
    with new Cons.prems(2) show "0 \<le> snd e" by auto
  qed
  with Cons.IH [of "add_order clk ord acc"] Cons.prems(1) show ?case by simp
qed

lemma dowAverages_nonneg_fold:
  assumes "\<forall>e \<in> set es. 0 \<le> snd e" "\<forall>e \<in> set acc. \<forall>v \<in> set (snd e). 0 \<le> v"
  shows "\<forall>e \<in> set (fold (add_dow clk) es acc). \<forall>v \<in> set (snd e). 0 \<le> v"
  using assms
proof (induction es arbitrary: acc)
  case Nil
  then show ?case by simp
next
  case (Cons x es)
  let ?dow = "dowOfKey clk (fst x)"
  let ?have = "case map_of acc ?dow of None \<Rightarrow> [] | Some vs \<Rightarrow> vs"
  have "\<forall>v \<in> set ?have. 0 \<le> v"
  proof (cases "map_of acc ?dow")
    case None
    then show ?thesis by simp
  next
    case (Some vs)
    then have "(?dow, vs) \<in> set acc" by (rule map_of_SomeD)
    with Cons.prems(2) have "\<forall>v \<in> set vs. 0 \<le> v" by fastforce
    with Some show ?thesis by simp
  qed
  moreover have "0 \<le> snd x" using Cons.prems(1) by simp
  ultimately have new: "\<forall>v \<in> set (?have @ [snd x]). 0 \<le> v" by simp
  have "\<forall>e \<in> set (add_dow clk x acc). \<forall>v \<in> set (snd e). 0 \<le> v"
  proof
    fix e assume "e \<in> set (add_dow clk x acc)"
    then have "e = (?dow, ?have @ [snd x]) \<or> e \<in> set acc"
      using map_set_values [of acc ?dow "?have @ [snd x]"]
      by (auto simp: add_dow_def Let_def)
    then show "\<forall>v \<in> set (snd e). 0 \<le> v"
    proof
      assume "e = (?dow, ?have @ [snd x])"
      then have "snd e = ?have @ [snd x]" by (simp only: snd_conv)
      with new show ?thesis by (simp only:)
    next
      assume "e \<in> set acc"
      with Cons.prems(2) show ?thesis by blast
    qed
  qed
  with Cons.IH [of "add_dow clk x acc"] Cons.prems(1) show ?case by simp
qed

lemma dowMeans_mean:
  assumes "\<forall>ord \<in> set os. 0 \<le> guests_or_1 ord" "e \<in> set (build_dowMeans clk os)"
  shows "0 \<le> mean (snd e)"
proof -
  have "\<forall>e \<in> set (build_dailyCovers clk os). 0 \<le> snd e"
    unfolding build_dailyCovers_def using assms(1) by (intro dailyCovers_nonneg_fold) simp_all
  then have "\<forall>e \<in> set (build_dowAverages clk (build_dailyCovers clk os)). \<forall>v \<in> set (snd e). 0 \<le> v"
    unfolding build_dowAverages_def by (intro dowAverages_nonneg_fold) simp_all
  with assms(2) show ?thesis
    by (auto simp: build_dowMeans_def intro!: dow_stats_mean)
qed

text \<open>
  Claim C2. When every weekday of the history has a mean of at least 0 (the population
  standard deviation is a square root and never negative) and every random draw lies in
  \<open>[0, 1)\<close>, every day of the response has
  \<open>confidenceLow \<le> predictedCovers \<le> confidenceHigh\<close> and \<open>0 \<le> confidenceLow\<close>.
\<close>

theorem forecast_band:
  assumes hist: "\<forall>e \<in> set (build_dowMeans clk historicalOrders). 0 \<le> mean (snd e)"
    and rnd: "\<forall>i. 0 \<le> rnd i \<and> rnd i < 1"
    and p: "p \<in> set (fst (forecast_covers clk rnd historicalOrders db days))"
  shows "p_confidenceLow p \<le> p_predictedCovers p
       \<and> p_predictedCovers p \<le> p_confidenceHigh p
       \<and> 0 \<le> p_confidenceLow p"
proof -
  let ?dm = "build_dowMeans clk historicalOrders"
  from p obtain i where i: "p = response_day clk ?dm (rnd i) i"
    by (auto simp: forecast_covers_def forecast_loop_set)
  let ?dow = "getDay clk (targetDate clk i)"
  let ?st = "stats_for ?dm ?dow"
  have "0 \<le> mean ?st \<and> 0 \<le> std ?st"
  proof (cases "?st = default_stats")
    case True
    then show ?thesis by (simp add: default_stats_def)
  next
    case False
    then have "(Some ?dow, ?st) \<in> set ?dm"
      using stats_for_cases [of ?dm ?dow] by blast
    then show ?thesis
      using hist dowMeans_std [of "(Some ?dow, ?st)" clk historicalOrders] by force
  qed
  then have "max 0 (js_round (real_of_int (predicted_of ?st (rnd i)) - std ?st * 1.5))
        \<le> max 0 (predicted_of ?st (rnd i))
      \<and> max 0 (predicted_of ?st (rnd i))
        \<le> js_round (real_of_int (predicted_of ?st (rnd i)) + std ?st * 1.5)"
    using band_of_stats [of ?st "rnd i"] rnd by blast
  then show ?thesis
    by (simp add: i response_day_def Let_def)
qed

lemma js_round_minus_15: "js_round (real_of_int z - 10 * 1.5) = z - 15"
  unfolding js_round_def by (rule floor_unique) simp_all

lemma js_round_plus_15: "js_round (real_of_int z + 10 * 1.5) = z + 15"
  unfolding js_round_def by (rule floor_unique) simp_all

text \<open>
  Claim C9. A requested day whose weekday has no history (in particular every day when
  there is no closed order at all) is predicted from mean 50 and deviation 10:
  \<open>predictedCovers\<close> is \<open>round(50 + jitter)\<close> with the jitter in \<open>[-2.5, 2.5)\<close>, hence
  between 48 and 52, and the band is \<open>predictedCovers - 15\<close> to \<open>predictedCovers + 15\<close>.
\<close>

theorem forecast_default_stats:
  assumes i: "1 \<le> i" "i \<le> days"
    and rnd: "0 \<le> rnd i" "rnd i < 1"
    and nohist: "Some (getDay clk (targetDate clk i)) \<notin> dowOfKey clk ` dateKey clk ` set historicalOrders"
  shows "(let p = fst (forecast_covers clk rnd historicalOrders db days) ! (i - 1)
          in p_predictedCovers p = js_round (50 + (rnd i - 0.5) * 10 * 0.5)
           \<and> - 2.5 \<le> (rnd i - 0.5) * 10 * 0.5 \<and> (rnd i - 0.5) * 10 * 0.5 < 2.5
           \<and> 48 \<le> p_predictedCovers p \<and> p_predictedCovers p \<le> 52
           \<and> p_confidenceLow p = p_predictedCovers p - 15
           \<and> p_confidenceHigh p = p_predictedCovers p + 15)"
proof -
  let ?dm = "build_dowMeans clk historicalOrders"
  let ?p = "fst (forecast_covers clk rnd historicalOrders db days) ! (i - 1)"
  have p: "?p = response_day clk ?dm (rnd i) i"
    using forecast_loop_nth [OF i] by (simp add: forecast_covers_def)
  have st: "stats_for ?dm (getDay clk (targetDate clk i)) = default_stats"
    using nohist by (intro stats_for_no_history) (simp add: dowMeans_keys)
  let ?q = "js_round (50 + (rnd i - 0.5) * 10 * 0.5)"
  have q: "predicted_of default_stats (rnd i) = ?q"
    by (simp add: predicted_of_def default_stats_def Let_def)
  have lo: "48 \<le> ?q"
  proof -
    have "real_of_int 48 \<le> 50 + (rnd i - 0.5) * 10 * 0.5 + 1 / 2" using rnd by (simp add: field_simps)
    then show ?thesis unfolding js_round_def le_floor_iff .
  qed
  have hi: "?q \<le> 52"
  proof -
    have "50 + (rnd i - 0.5) * 10 * 0.5 + 1 / 2 < real_of_int 52 + 1" using rnd by (simp add: field_simps)
    then show ?thesis unfolding js_round_def floor_le_iff .
  qed
  have low: "js_round (real_of_int ?q - 10 * 1.5) = ?q - 15"
    by (rule js_round_minus_15)
  have high: "js_round (real_of_int ?q + 10 * 1.5) = ?q + 15"
    by (rule js_round_plus_15)
  have "p_predictedCovers ?p = ?q"
    unfolding p response_day_def Let_def st q using lo by simp
  moreover have "p_confidenceLow ?p = ?q - 15"
    unfolding p response_day_def Let_def st q using lo low
    by (simp add: default_stats_def)
  moreover have "p_confidenceHigh ?p = ?q + 15"
    unfolding p response_day_def Let_def st q using high
    by (simp add: default_stats_def)
  moreover have "- 2.5 \<le> (rnd i - 0.5) * 10 * 0.5 \<and> (rnd i - 0.5) * 10 * 0.5 < 2.5"
    using rnd by (simp add: field_simps)
  ultimately show ?thesis unfolding Let_def using lo hi by simp
qed

lemma negative_prediction_spread:
  assumes "0 \<le> std st" "0 \<le> r" "predicted_of st r < 0"
  shows "4 * mean st + 2 < std st"
proof -
  let ?x = "mean st + (r - 0.5) * std st * 0.5"
  from assms(3) have "?x + 1 / 2 < 0"
    by (simp add: predicted_of_def js_round_def Let_def floor_less_iff)
  moreover have "- (std st / 4) \<le> (r - 0.5) * std st * 0.5"
    using assms(1,2) by (rule variation_lower)
  ultimately show ?thesis by linarith
qed

text \<open>
  Claim C10. Whenever the rounded prediction of a requested day is negative, the row
  upserted for that date stores the negative value while the response reports 0 for the
  same date.
\<close>

theorem stored_unfloored:
  assumes i: "1 \<le> i" "i \<le> days"
    and neg: "predicted_of (stats_for (build_dowMeans clk historicalOrders)
                 (getDay clk (targetDate clk i))) (rnd i) < 0"
  shows "(\<exists>row v. snd (forecast_covers clk rnd historicalOrders db days) (targetDate clk i) = Some row
            \<and> predictedCovers row = Some v \<and> v < 0)
       \<and> p_date (fst (forecast_covers clk rnd historicalOrders db days) ! (i - 1))
           = toISODate clk (targetDate clk i)
       \<and> p_predictedCovers (fst (forecast_covers clk rnd historicalOrders db days) ! (i - 1)) = 0"
proof -
  let ?dm = "build_dowMeans clk historicalOrders"
  have "snd (forecast_covers clk rnd historicalOrders db days) (targetDate clk i)
      = Some (stored_day clk ?dm (rnd i) i)"
    using forecast_loop_stored [OF i] by (simp add: forecast_covers_def)
  moreover have "predictedCovers (stored_day clk ?dm (rnd i) i)
      = Some (predicted_of (stats_for ?dm (getDay clk (targetDate clk i))) (rnd i))"
    by (simp add: stored_day_def Let_def)
  moreover have "fst (forecast_covers clk rnd historicalOrders db days) ! (i - 1)
      = response_day clk ?dm (rnd i) i"
    using forecast_loop_nth [OF i] by (simp add: forecast_covers_def)
  ultimately show ?thesis using neg
    by (simp add: response_day_def Let_def)
qed

subsection \<open>The forecaster on the example histories\<close>

lemma two_thursdays_stats:
  "build_dowMeans demo_clock two_thursdays = [(Some 4, \<lparr>mean = 4, std = 2\<rparr>)]"
  by (simp add: forecast_defs example_clock Let_def)

lemma negative_guests_stats:
  "build_dowMeans demo_clock negative_guests = [(Some 4, \<lparr>mean = - 100, std = 0\<rparr>)]"
  by (simp add: forecast_defs example_clock Let_def)

lemma demo_target: "getDay demo_clock (targetDate demo_clock 1) = 4"
  by (simp add: targetDate_def demo_clock_def demo_get_day_def)

lemma demo_predicted: "predicted_of \<lparr>mean = 4, std = 2\<rparr> (low_draw 1) = 4"
  by (simp add: predicted_of_def low_draw_def js_round_def)

lemma demo_response:
  "response_day demo_clock [(Some 4, \<lparr>mean = 4, std = 2\<rparr>)] (low_draw 1) 1
     = \<lparr>p_date = ''1970-01-08'', p_dayOfWeek = Some ''Thu'', p_predictedCovers = 4,
        p_confidenceLow = 1, p_confidenceHigh = 7\<rparr>"
proof -
  have st: "stats_for [(Some 4, \<lparr>mean = 4, std = 2\<rparr>)] 4 = \<lparr>mean = 4, std = 2\<rparr>"
    by (simp add: stats_for_def)
  have d: "toISODate demo_clock (targetDate demo_clock 1) = ''1970-01-08''"
    by (simp add: targetDate_def demo_clock_def demo_iso_date_def)
  have n: "day_name 4 = Some ''Thu''"
    by (simp add: day_name_def day_names_def)
  show ?thesis
    unfolding response_day_def Let_def demo_target st demo_predicted d n
    by (simp add: js_round_def)
qed

lemma demo_predictions:
  "fst (forecast_covers demo_clock low_draw two_thursdays no_rows 1)
     = [\<lparr>p_date = ''1970-01-08'', p_dayOfWeek = Some ''Thu'', p_predictedCovers = 4,
         p_confidenceLow = 1, p_confidenceHigh = 7\<rparr>]"
proof -
  have one: "(1::nat) = Suc 0" by simp
  have "fst (forecast_covers demo_clock low_draw two_thursdays no_rows 1)
      = [response_day demo_clock [(Some 4, \<lparr>mean = 4, std = 2\<rparr>)] (low_draw 1) 1]"
    unfolding forecast_covers_def two_thursdays_stats by (simp add: one Let_def)
  then show ?thesis by (simp only: demo_response)
qed

text \<open>
  Two Thursdays with 6 and 2 covers give mean 4 and deviation 2; with the lowest draw the
  next Thursday is predicted at 4 covers with the band 1 to 7.
\<close>

theorem forecast_band_witness:
  "build_dowMeans demo_clock two_thursdays = [(Some 4, \<lparr>mean = 4, std = 2\<rparr>)]
   \<and> map p_predictedCovers (fst (forecast_covers demo_clock low_draw two_thursdays no_rows 1)) = [4]
   \<and> p_confidenceLow (hd (fst (forecast_covers demo_clock low_draw two_thursdays no_rows 1)))
       \<le> p_predictedCovers (hd (fst (forecast_covers demo_clock low_draw two_thursdays no_rows 1)))
   \<and> p_predictedCovers (hd (fst (forecast_covers demo_clock low_draw two_thursdays no_rows 1)))
       \<le> p_confidenceHigh (hd (fst (forecast_covers demo_clock low_draw two_thursdays no_rows 1)))
   \<and> 0 \<le> p_confidenceLow (hd (fst (forecast_covers demo_clock low_draw two_thursdays no_rows 1)))"
proof -
  have st: "build_dowMeans demo_clock two_thursdays = [(Some 4, \<lparr>mean = 4, std = 2\<rparr>)]"
    by (rule two_thursdays_stats)
  then have hist: "\<forall>e \<in> set (build_dowMeans demo_clock two_thursdays). 0 \<le> mean (snd e)"
    by simp
  have rnd: "\<forall>i. 0 \<le> low_draw i \<and> low_draw i < 1" by (simp add: low_draw_def)
  have p: "hd (fst (forecast_covers demo_clock low_draw two_thursdays no_rows 1))
      \<in> set (fst (forecast_covers demo_clock low_draw two_thursdays no_rows 1))"
    by (simp only: demo_predictions list.sel list.set insertI1)
  have v: "map p_predictedCovers (fst (forecast_covers demo_clock low_draw two_thursdays no_rows 1)) = [4]"
    by (simp only: demo_predictions list.map prediction.simps)
  from forecast_band [OF hist rnd p] st v show ?thesis by blast
qed

text \<open>No closed order at all, fourteen days requested, the lowest draw: day 14 is 48 [33, 63].\<close>

theorem forecast_default_stats_witness:
  "p_predictedCovers (fst (forecast_covers demo_clock low_draw [] no_rows 14) ! (14 - 1)) = 48
   \<and> p_confidenceLow (fst (forecast_covers demo_clock low_draw [] no_rows 14) ! (14 - 1)) = 33
   \<and> p_confidenceHigh (fst (forecast_covers demo_clock low_draw [] no_rows 14) ! (14 - 1)) = 63"
proof -
  have r: "js_round (50 + (low_draw 14 - 0.5) * 10 * 0.5) = 48"
    by (simp add: low_draw_def js_round_def)
  have "Some (getDay demo_clock (targetDate demo_clock 14))
      \<notin> dowOfKey demo_clock ` dateKey demo_clock ` set []" by simp
  from forecast_default_stats [of 14 14 low_draw demo_clock "[]" no_rows, OF _ _ _ _ this]
  show ?thesis unfolding Let_def r by (simp add: low_draw_def)
qed

text \<open>
  One closed order on a Thursday with a guest count of -100: the row stored for the next
  Thursday holds -100 and the response reports 0.
\<close>

theorem stored_unfloored_witness:
  "predicted_of (stats_for (build_dowMeans demo_clock negative_guests)
       (getDay demo_clock (targetDate demo_clock 1))) (low_draw 1) = - 100
   \<and> map_option predictedCovers
       (snd (forecast_covers demo_clock low_draw negative_guests no_rows 1) (targetDate demo_clock 1))
       = Some (Some (- 100))
   \<and> p_predictedCovers (fst (forecast_covers demo_clock low_draw negative_guests no_rows 1) ! (1 - 1)) = 0"
proof -
  have v: "predicted_of (stats_for (build_dowMeans demo_clock negative_guests)
       (getDay demo_clock (targetDate demo_clock 1))) (low_draw 1) = - 100"
    unfolding negative_guests_stats demo_target
    by (simp add: stats_for_def predicted_of_def js_round_def low_draw_def)
  then have neg: "predicted_of (stats_for (build_dowMeans demo_clock negative_guests)
       (getDay demo_clock (targetDate demo_clock 1))) (low_draw 1) < 0" by simp
  have one: "(1::nat) = Suc 0" by simp
  have row: "map_option predictedCovers
       (snd (forecast_covers demo_clock low_draw negative_guests no_rows 1) (targetDate demo_clock 1))
       = Some (Some (- 100))"
    using v unfolding forecast_covers_def one by (simp add: Let_def stored_day_def)
  from stored_unfloored [of 1 1 demo_clock negative_guests low_draw no_rows, OF _ _ neg] v row
  show ?thesis by simp
qed

section \<open>Labor allocator\<close>

text \<open>
  Claim C1, evaluated on a failing input. One server, five forecast days of 20 covers and
  no constraints in the request: the cap is 40, the test \<open>currentHours < 40\<close> still holds
  at 36 hours on the fifth day, and the server ends the week with 45 hours.
\<close>

theorem cap_exceeded:
  "hours_cap None = 40 \<and> staffUtilization week_iso_date None [ann] five_days ''s1'' = Some 45"
  by (simp add: staff_defs example_staff Let_def)

text \<open>
  A day of 40 covers with a server and a cook on the roster: one cook is needed, and the
  only suggested shift is the server's.
\<close>

theorem cook_never_assigned:
  "r_cooks (hd (recommendations week_iso_date None [ann, bob] [forecast_on 0 40])) = 1
   \<and> map sh_staffId
        (r_suggestedShifts (hd (recommendations week_iso_date None [ann, bob] [forecast_on 0 40])))
       = [''s1'']"
  by (simp add: staff_defs example_staff Let_def)

lemma assign_servers_shifts:
  "distinct (map s_id ss) \<Longrightarrow>
   fst (assign_servers cap d need ss (shifts, h))
     = shifts @ map (server_shift d)
         (filter (\<lambda>s. current_hours h (s_id s) < cap) (take (nat need) ss))"
proof (induction ss arbitrary: need shifts h)
  case Nil
  then show ?case by simp
next
  case (Cons server rest)
  show ?case
  proof (cases "need \<le> 0")
    case True
    then show ?thesis by simp
  next
    case False
    then have tk: "take (nat need) (server # rest) = server # take (nat (need - 1)) rest"
      by (simp add: take_Cons' nat_diff_distrib')
    from Cons.prems have d: "distinct (map s_id rest)" by simp
    from Cons.prems have "s_id server \<notin> s_id ` set rest" by simp
    then have fresh: "\<forall>s \<in> set rest. s_id s \<noteq> s_id server" by (metis image_eqI)
    let ?cur = "current_hours h (s_id server)"
    have same: "filter (\<lambda>s. current_hours (h(s_id server \<mapsto> ?cur + 9)) (s_id s) < cap) (take (nat (need - 1)) rest)
              = filter (\<lambda>s. current_hours h (s_id s) < cap) (take (nat (need - 1)) rest)"
      using fresh by (intro filter_cong refl) (auto simp: current_hours_def dest: in_set_takeD)
    show ?thesis
    proof (cases "?cur < cap")
      case True
      have "assign_servers cap d need (server # rest) (shifts, h)
          = assign_servers cap d (need - 1) rest
              (shifts @ [server_shift d server], h(s_id server \<mapsto> ?cur + 9))"
        using False True by (simp add: Let_def)
      then have "fst (assign_servers cap d need (server # rest) (shifts, h))
          = (shifts @ [server_shift d server]) @ map (server_shift d)
              (filter (\<lambda>s. current_hours (h(s_id server \<mapsto> ?cur + 9)) (s_id s) < cap)
                 (take (nat (need - 1)) rest))"
        by (simp only: Cons.IH [OF d])
      also have "\<dots> = shifts @ map (server_shift d)
              (filter (\<lambda>s. current_hours h (s_id s) < cap) (take (nat need) (server # rest)))"
        unfolding same tk using True by simp
      finally show ?thesis .
    next
      case nocap: False
      have "assign_servers cap d need (server # rest) (shifts, h)
          = assign_servers cap d (need - 1) rest (shifts, h)"
        using False nocap by (simp add: Let_def)
      then have "fst (assign_servers cap d need (server # rest) (shifts, h))
          = shifts @ map (server_shift d)
              (filter (\<lambda>s. current_hours h (s_id s) < cap) (take (nat (need - 1)) rest))"
        by (simp only: Cons.IH [OF d])
      also have "\<dots> = shifts @ map (server_shift d)
              (filter (\<lambda>s. current_hours h (s_id s) < cap) (take (nat need) (server # rest)))"
        unfolding tk using nocap by simp
      finally show ?thesis .
    qed
  qed
qed

text \<open>
  Claim C6, amended. For each forecast day the target headcounts are \<open>ceil(covers / 20)\<close>
  servers and \<open>ceil(covers / 40)\<close> cooks, and shifts are suggested for servers only. The
  first \<open>serversNeeded\<close> servers of the roster are considered in roster order: each of them
  who can take the 9 hours without passing the cap gets the 11:00 to 20:00 shift, and each
  who has reached the cap is skipped. When the roster has no more servers than needed and
  all of them have room for the shift, every server is assigned and nothing more is done
  about the missing ones. Staff ids are distinct; staff members below the cap by less than
  9 hours are outside this statement.
\<close>

theorem servers_only_assignment:
  assumes ids: "distinct (map s_id staffList)"
    and room: "\<forall>s \<in> set staffList. current_hours staffHours (s_id s) + 9 \<le> cap
                                   \<or> cap \<le> current_hours staffHours (s_id s)"
  shows "(let servers = filter (\<lambda>s. s_role s = Some ''server'') staffList;
              serversNeeded = js_ceil (real_of_int (covers_of forecast) / 20);
              day = fst (optimize_day isoDate cap staffList forecast staffHours)
          in r_servers day = serversNeeded
           \<and> r_cooks day = js_ceil (real_of_int (covers_of forecast) / 40)
           \<and> r_suggestedShifts day
               = map (server_shift (isoDate (forecastDate forecast)))
                   (filter (\<lambda>s. current_hours staffHours (s_id s) + 9 \<le> cap)
                      (take (nat serversNeeded) servers))
           \<and> (int (length servers) \<le> serversNeeded
                \<and> (\<forall>s \<in> set servers. current_hours staffHours (s_id s) + 9 \<le> cap)
               \<longrightarrow> r_suggestedShifts day
                     = map (server_shift (isoDate (forecastDate forecast))) servers))"
proof -
  let ?servers = "filter (\<lambda>s. s_role s = Some ''server'') staffList"
  let ?n = "nat (js_ceil (real_of_int (covers_of forecast) / 20))"
  let ?d = "isoDate (forecastDate forecast)"
  let ?day = "fst (optimize_day isoDate cap staffList forecast staffHours)"
  have "distinct (map s_id ?servers)"
    using ids by (simp add: distinct_map_filter)
  from assign_servers_shifts [OF this, of cap _ _ "[]" staffHours]
  have code: "r_suggestedShifts ?day
      = map (server_shift ?d)
          (filter (\<lambda>s. current_hours staffHours (s_id s) < cap) (take ?n ?servers))"
    by (simp add: optimize_day_def Let_def)
  have "filter (\<lambda>s. current_hours staffHours (s_id s) < cap) (take ?n ?servers)
      = filter (\<lambda>s. current_hours staffHours (s_id s) + 9 \<le> cap) (take ?n ?servers)"
  proof (rule filter_cong [OF refl])
    fix s assume "s \<in> set (take ?n ?servers)"
    then have "s \<in> set staffList" by (auto dest: in_set_takeD)
    with room show "current_hours staffHours (s_id s) < cap
        \<longleftrightarrow> current_hours staffHours (s_id s) + 9 \<le> cap" by fastforce
  qed
  with code have shifts: "r_suggestedShifts ?day
      = map (server_shift ?d)
          (filter (\<lambda>s. current_hours staffHours (s_id s) + 9 \<le> cap) (take ?n ?servers))"
    by (simp only:)
  have all: "filter (\<lambda>s. current_hours staffHours (s_id s) + 9 \<le> cap) (take ?n ?servers) = ?servers"
    if "int (length ?servers) \<le> js_ceil (real_of_int (covers_of forecast) / 20)"
      and "\<forall>s \<in> set ?servers. current_hours staffHours (s_id s) + 9 \<le> cap"
  proof -
    from that(1) have "take ?n ?servers = ?servers"
      by (intro take_all) linarith
    with that(2) show ?thesis by (simp only: filter_True)
  qed
  have heads: "r_servers ?day = js_ceil (real_of_int (covers_of forecast) / 20)
      \<and> r_cooks ?day = js_ceil (real_of_int (covers_of forecast) / 40)"
    by (simp add: optimize_day_def Let_def)
  show ?thesis
    unfolding Let_def using heads shifts all by metis
qed

text \<open>The day of 40 covers with Ann and Bob, nobody having worked yet: Ann gets the shift.\<close>

theorem servers_only_assignment_witness:
  "distinct (map s_id [ann, bob])
   \<and> current_hours no_hours (s_id ann) + 9 \<le> 40
   \<and> current_hours no_hours (s_id bob) + 9 \<le> 40
   \<and> r_cooks (fst (optimize_day week_iso_date 40 [ann, bob] (forecast_on 0 40) no_hours)) = 1
   \<and> r_suggestedShifts (fst (optimize_day week_iso_date 40 [ann, bob] (forecast_on 0 40) no_hours))
       = [server_shift ''2024-06-03'' ann]"
proof -
  have d: "distinct (map s_id [ann, bob])" by (simp add: ann_def bob_def)
  have h: "current_hours no_hours (s_id ann) + 9 \<le> 40 \<and> current_hours no_hours (s_id bob) + 9 \<le> 40"
    by (simp add: no_hours_def current_hours_def)
  then have room: "\<forall>s \<in> set [ann, bob]. current_hours no_hours (s_id s) + 9 \<le> 40
      \<or> 40 \<le> current_hours no_hours (s_id s)" by simp
  have n: "js_ceil (real_of_int (covers_of (forecast_on 0 40)) / 20) = 2"
    by (simp add: js_ceil_def covers_of_def forecast_on_def)
  have c: "js_ceil (real_of_int (covers_of (forecast_on 0 40)) / 40) = 1"
    by (simp add: js_ceil_def covers_of_def forecast_on_def)
  have iso: "week_iso_date (forecastDate (forecast_on 0 40)) = ''2024-06-03''"
    by (simp add: week_iso_date_def forecast_on_def)
  have f: "filter (\<lambda>s. current_hours no_hours (s_id s) + 9 \<le> 40)
             (take (nat 2) (filter (\<lambda>s. s_role s = Some ''server'') [ann, bob])) = [ann]"
    by (simp add: ann_def bob_def no_hours_def current_hours_def)
  from servers_only_assignment [where isoDate = week_iso_date and cap = 40
      and forecast = "forecast_on 0 40" and staffHours = no_hours, OF d room] d h
  show ?thesis unfolding Let_def n c iso f by simp
qed

section \<open>Churn ranker\<close>

text \<open>
  Claim C5, evaluated on a failing input. A restaurant whose only customer has a churn
  risk of 0.2, queried with the default \<open>minRisk\<close> of 0.5: no customer matches, and the
  \<open>avgChurnRisk\<close> of the summary is \<open>Math.round((0 / 0) * 100)\<close>, that is \<open>NaN\<close>.
\<close>

theorem empty_at_risk_average:
  "fst (at_risk 0 [loyal] 0.5 50) = []
   \<and> total_count (snd (at_risk 0 [loyal] 0.5 50)) = 0
   \<and> avgChurnRisk (snd (at_risk 0 [loyal] 0.5 50)) = NaN"
  by (simp add: at_risk_def find_at_risk_def at_risk_where_def summary_of_def loyal_def Let_def)








end
